theory Spec2Isabelle
  imports Complex_Main "HOL-Library.AList"
begin

section \<open>Conventions of the embedding\<close>

text \<open>
  The trading pipeline of the repository (\<^verbatim>\<open>agent_engine.py\<close>, \<^verbatim>\<open>strategy_engine.py\<close>,
  \<^verbatim>\<open>risk_engine.py\<close>, \<^verbatim>\<open>portfolio_engine.py\<close>, \<^verbatim>\<open>execution_engine.py\<close>) is embedded
  function by function.

  \<^item> A Python \<^verbatim>\<open>float\<close> is read as a real number and float arithmetic as exact
    arithmetic: rounding, overflow and the non-finite values of the Python-level
    operations are outside the model. Where a property depends on the rounding, the
    rounding is an argument: the two ledger operations are given a second time with
    the rounding of each operation, and the strategy takes the library's rolling mean
    as an argument. Python's \<^verbatim>\<open>int\<close> is \<^typ>\<open>int\<close>.
  \<^item> A division of Python floats by zero raises \<^verbatim>\<open>ZeroDivisionError\<close>; it is a branch
    \<open>Inl ZeroDivisionError\<close> of the function that divides. The same division on numpy
    scalars (the scout's momentum and returns) yields \<^verbatim>\<open>inf\<close> or \<^verbatim>\<open>nan\<close> instead; those
    values are kept in the type \<open>npfloat\<close>.
  \<^item> A call that passes a keyword the callee has no parameter for raises
    \<^verbatim>\<open>TypeError\<close> before the callee's body runs; the one call of the pipeline that
    passes keywords is modelled with its keywords.
  \<^item> Every method that mutates \<^verbatim>\<open>self\<close> takes the object and returns the new one.
    Objects held by reference (the strategy engine inside the analyst, the risk
    engine inside the guardian) are passed to the method that reads them.
  \<^item> Texts that format a number into a string (\<^verbatim>\<open>status\<close>, the \<^verbatim>\<open>reason\<close> of a decision,
    the \<^verbatim>\<open>note\<close> of a trade) are datatypes with one constructor per text, the
    formatted numbers as arguments. Console output (\<^verbatim>\<open>print\<close>) is not modelled.
\<close>

datatype signal = BUY | SELL | HOLD

datatype error = ZeroDivisionError | ValueError | IndexError | TypeError

datatype npfloat = Fin real | PosInf | NegInf | NaN

section \<open>Agent memory (\<^verbatim>\<open>BaseAgent\<close>)\<close>

record memory =
  total_trades :: int
  wins :: int
  losses :: int
  current_streak :: int
  adaptations :: "string list"

datatype status =
    Idle
  | Waiting_for_data
  | Scanned npfloat
  | Analyzed signal
  | Cooldown_Active int
  | Cooldown_Finished
  | No_Action_Required
  | Approved_SELL
  | Approved_BUY
  | Rejected_BUY

text \<open>
  The constructors of \<open>status\<close> stand for the texts \<^verbatim>\<open>"Idle"\<close>, \<^verbatim>\<open>"Waiting for data"\<close>,
  \<^verbatim>\<open>f"Scanned | Volatility: {volatility:.4f}"\<close>, \<^verbatim>\<open>f"Analyzed | Output: {final_signal}"\<close>,
  \<^verbatim>\<open>f"Cooldown Active ({n} cycles left)"\<close>, \<^verbatim>\<open>"Cooldown Finished"\<close>,
  \<^verbatim>\<open>"No Action Required"\<close>, \<^verbatim>\<open>"Approved SELL"\<close>, \<^verbatim>\<open>"Approved BUY"\<close> and \<^verbatim>\<open>"Rejected BUY"\<close>.
\<close>

record 'd base_agent =
  name :: string
  status :: status
  last_decision :: "'d option"
  memory :: memory

definition initial_memory :: memory where
  "initial_memory =
     \<lparr>total_trades = 0, wins = 0, losses = 0, current_streak = 0, adaptations = []\<rparr>"

text \<open>
  \<^verbatim>\<open>BaseAgent.update_memory\<close>, lines 22 to 34: the counters and the streak. A profit
  of exactly zero counts as a trade and as neither a win nor a loss.
\<close>

definition record_outcome :: "memory \<Rightarrow> real \<Rightarrow> memory" where
  "record_outcome m realized_pnl =
     (let m1 = m\<lparr>total_trades := total_trades m + 1\<rparr> in
      if realized_pnl > 0 then
        (let m2 = m1\<lparr>wins := wins m1 + 1\<rparr> in
         if current_streak m2 > 0 then m2\<lparr>current_streak := current_streak m2 + 1\<rparr>
         else m2\<lparr>current_streak := 1\<rparr>)
      else if realized_pnl < 0 then
        (let m2 = m1\<lparr>losses := losses m1 + 1\<rparr> in
         if current_streak m2 < 0 then m2\<lparr>current_streak := current_streak m2 - 1\<rparr>
         else m2\<lparr>current_streak := - 1\<rparr>)
      else m1)"

text \<open>
  \<^verbatim>\<open>BaseAgent.update_memory\<close>: the outcome is recorded, then the agent's own
  \<^verbatim>\<open>_adapt\<close> runs. The abstract method is the first argument.
\<close>

definition update_memory ::
  "(('d, 'a) base_agent_scheme \<Rightarrow> ('d, 'a) base_agent_scheme) \<Rightarrow>
   ('d, 'a) base_agent_scheme \<Rightarrow> real \<Rightarrow> ('d, 'a) base_agent_scheme" where
  "update_memory adapt a realized_pnl =
     adapt (a\<lparr>memory := record_outcome (memory a) realized_pnl\<rparr>)"

section \<open>Scout (\<^verbatim>\<open>ScoutAgent\<close>)\<close>

datatype scout_note =
    No_scout_note
  | Rejected_High_Volatility real
  | Strong_Positive_Momentum
  | Strong_Negative_Momentum

datatype scout_reason =
    Insufficient_data
  | Momentum_Volatility npfloat npfloat scout_note

record scout_decision =
  scout_signal :: signal
  scout_reason :: scout_reason
  scout_volatility :: "npfloat option"

record scout_agent = "scout_decision base_agent" +
  volatility_threshold :: real

definition ScoutAgent :: scout_agent where
  "ScoutAgent =
     \<lparr>name = ''Scout'', status = Idle, last_decision = None, memory = initial_memory,
      volatility_threshold = 5 / 100\<rparr>"

definition scout_adapt :: "scout_agent \<Rightarrow> scout_agent" where
  "scout_adapt s =
     (let s1 = s\<lparr>memory := (memory s)\<lparr>adaptations := []\<rparr>\<rparr> in
      if current_streak (memory s1) \<le> - 3 then
        s1\<lparr>volatility_threshold := 2 / 100,
           memory := (memory s1)\<lparr>adaptations :=
             adaptations (memory s1) @ [''Tightened Volatility Filter (Loss Streak)'']\<rparr>\<rparr>
      else s1\<lparr>volatility_threshold := 5 / 100\<rparr>)"

text \<open>Division of numpy scalars: a zero divisor gives a non-finite value, no exception.\<close>

definition np_div :: "real \<Rightarrow> real \<Rightarrow> npfloat" where
  "np_div a b =
     (if b \<noteq> 0 then Fin (a / b)
      else if a > 0 then PosInf else if a < 0 then NegInf else NaN)"

fun np_minus :: "npfloat \<Rightarrow> real \<Rightarrow> npfloat" where
  "np_minus (Fin x) c = Fin (x - c)"
| "np_minus v c = v"

fun np_times :: "npfloat \<Rightarrow> real \<Rightarrow> npfloat" where
  "np_times (Fin x) c = Fin (x * c)"
| "np_times v c = NaN"

fun np_gt :: "npfloat \<Rightarrow> real \<Rightarrow> bool" where
  "np_gt (Fin x) c = (x > c)"
| "np_gt PosInf c = True"
| "np_gt v c = False"

fun np_lt :: "npfloat \<Rightarrow> real \<Rightarrow> bool" where
  "np_lt (Fin x) c = (x < c)"
| "np_lt NegInf c = True"
| "np_lt v c = False"

text \<open>
  \<^verbatim>\<open>pd.Series(prices).pct_change()\<close>: the first entry is \<^verbatim>\<open>nan\<close>, each later one is
  \<^verbatim>\<open>prices[i] / prices[i-1] - 1\<close>; \<^verbatim>\<open>dropna()\<close> removes the \<^verbatim>\<open>nan\<close> entries.
\<close>

definition pct_change :: "real list \<Rightarrow> npfloat list" where
  "pct_change prices =
     (case prices of [] \<Rightarrow> []
      | p # ps \<Rightarrow> NaN # map (\<lambda>(prev, cur). np_minus (np_div cur prev) 1) (zip prices ps))"

definition dropna :: "npfloat list \<Rightarrow> npfloat list" where
  "dropna vs = filter (\<lambda>v. v \<noteq> NaN) vs"

fun finite_values :: "npfloat list \<Rightarrow> real list option" where
  "finite_values [] = Some []"
| "finite_values (Fin x # vs) = map_option ((#) x) (finite_values vs)"
| "finite_values (v # vs) = None"

text \<open>
  \<^verbatim>\<open>Series.std()\<close>: the sample standard deviation (one degree of freedom removed),
  \<^verbatim>\<open>nan\<close> for fewer than two values or when a value is infinite.
\<close>

definition std :: "npfloat list \<Rightarrow> npfloat" where
  "std vs =
     (case finite_values vs of
        None \<Rightarrow> NaN
      | Some rs \<Rightarrow>
          if length rs \<le> 1 then NaN
          else (let mean = sum_list rs / real (length rs) in
                Fin (sqrt (sum_list (map (\<lambda>r. (r - mean)\<^sup>2) rs) / real (length rs - 1)))))"

definition scan :: "scout_agent \<Rightarrow> real list \<Rightarrow> scout_decision \<times> scout_agent" where
  "scan s prices =
     (if prices = [] \<or> length prices < 5 then
        (let d = \<lparr>scout_signal = HOLD, scout_reason = Insufficient_data,
                  scout_volatility = None\<rparr>
         in (d, s\<lparr>status := Waiting_for_data, last_decision := Some d\<rparr>))
      else
        (let n = length prices;
             momentum = np_div (prices ! (n - 1) - prices ! (n - 5)) (prices ! (n - 5));
             returns = dropna (pct_change prices);
             volatility =
               (if length returns > 0 then np_times (std returns) (sqrt (real (length returns)))
                else Fin 0);
             (sig, note) =
               (if np_gt volatility (volatility_threshold s) then
                  (HOLD, Rejected_High_Volatility (volatility_threshold s))
                else if np_gt momentum (1 / 100) then (BUY, Strong_Positive_Momentum)
                else if np_lt momentum (- (1 / 100)) then (SELL, Strong_Negative_Momentum)
                else (HOLD, No_scout_note));
             d = \<lparr>scout_signal = sig,
                  scout_reason = Momentum_Volatility momentum volatility note,
                  scout_volatility = Some volatility\<rparr>
         in (d, s\<lparr>status := Scanned volatility, last_decision := Some d\<rparr>)))"

section \<open>Strategy (\<^verbatim>\<open>StrategyEngine\<close>)\<close>

record strategy_engine =
  short_window :: int
  long_window :: int

definition StrategyEngine :: strategy_engine where
  "StrategyEngine = \<lparr>short_window = 20, long_window = 50\<rparr>"

text \<open>
  \<^verbatim>\<open>df['close'].rolling(window=w).mean()\<close>. pandas refuses a negative window with
  \<^verbatim>\<open>ValueError\<close>; the entry at position \<open>i\<close> is the mean of the \<open>w\<close> closes ending at
  \<open>i\<close> once \<open>w\<close> closes are there, and \<^verbatim>\<open>nan\<close> (here \<open>None\<close>) before that and for an
  empty window. The mean is the exact one; the library's is its rounding to a double.
\<close>

definition rolling_mean :: "int \<Rightarrow> real list \<Rightarrow> error + real option list" where
  "rolling_mean window xs =
     (if window < 0 then Inl ValueError
      else Inr (map (\<lambda>i. if 0 < window \<and> nat window \<le> i + 1
                           then Some (sum_list (take (nat window) (drop (i + 1 - nat window) xs))
                                      / real_of_int window)
                           else None)
                    [0..<length xs]))"

record row =
  close :: real
  sma_short :: "real option"
  sma_long :: "real option"

text \<open>\<^verbatim>\<open>df.iloc[k]\<close> for a row position \<open>k\<close>, negative positions counted from the end.\<close>

definition iloc :: "'a list \<Rightarrow> int \<Rightarrow> error + 'a" where
  "iloc rows k =
     (if 0 \<le> k \<and> k < int (length rows) then Inr (rows ! nat k)
      else if k < 0 \<and> - k \<le> int (length rows) then Inr (rows ! nat (int (length rows) + k))
      else Inl IndexError)"

text \<open>Comparisons of moving averages: a comparison with \<^verbatim>\<open>nan\<close> is false.\<close>

fun nan_le :: "real option \<Rightarrow> real option \<Rightarrow> bool" where
  "nan_le (Some x) (Some y) = (x \<le> y)"
| "nan_le a b = False"

fun nan_lt :: "real option \<Rightarrow> real option \<Rightarrow> bool" where
  "nan_lt (Some x) (Some y) = (x < y)"
| "nan_lt a b = False"

text \<open>
  \<^verbatim>\<open>generate_signal\<close> with the rolling mean of the library as its first argument: the
  two columns of averages are whatever the library computes from the closes.
\<close>

definition generate_signal_with ::
  "(int \<Rightarrow> real list \<Rightarrow> error + real option list) \<Rightarrow> strategy_engine \<Rightarrow> real list \<Rightarrow>
   error + signal" where
  "generate_signal_with rolling se historical_data =
     (if historical_data = [] \<or> int (length historical_data) < long_window se then Inr HOLD
      else
        case rolling (short_window se) historical_data of
          Inl e \<Rightarrow> Inl e
        | Inr shorts \<Rightarrow>
        case rolling (long_window se) historical_data of
          Inl e \<Rightarrow> Inl e
        | Inr longs \<Rightarrow>
        (let df = map (\<lambda>(c, s, l). \<lparr>close = c, sma_short = s, sma_long = l\<rparr>)
                      (zip historical_data (zip shorts longs)) in
         case iloc df (- 1) of
           Inl e \<Rightarrow> Inr HOLD
         | Inr latest \<Rightarrow>
         case iloc df (- 2) of
           Inl e \<Rightarrow> Inr HOLD
         | Inr previous \<Rightarrow>
           if sma_long latest = None \<or> sma_long previous = None then Inr HOLD
           else if nan_le (sma_short previous) (sma_long previous) \<and>
                   nan_lt (sma_long latest) (sma_short latest) then Inr BUY
           else if nan_le (sma_long previous) (sma_short previous) \<and>
                   nan_lt (sma_short latest) (sma_long latest) then Inr SELL
           else Inr HOLD))"

text \<open>\<^verbatim>\<open>generate_signal\<close> with the averages read as exact means.\<close>

definition generate_signal :: "strategy_engine \<Rightarrow> real list \<Rightarrow> error + signal" where
  "generate_signal se historical_data = generate_signal_with rolling_mean se historical_data"

definition update_strategy_parameters ::
  "strategy_engine \<Rightarrow> int \<Rightarrow> int \<Rightarrow> strategy_engine" where
  "update_strategy_parameters se short long =
     (if 0 < short \<and> short < long then se\<lparr>short_window := short, long_window := long\<rparr>
      else se)"

section \<open>Analyst (\<^verbatim>\<open>AnalystAgent\<close>)\<close>

datatype analyst_note =
    No_analyst_note
  | Confirmed_by_Scout_Alignment
  | Rejected_Scout_divergence signal
  | Base_Strategy_Executing

record proposal =
  proposal_signal :: signal
  proposal_sma_signal :: signal
  proposal_note :: analyst_note

text \<open>
  The proposal's \<^verbatim>\<open>reason\<close> is \<^verbatim>\<open>f"SMA Signal: {sma_signal}"\<close> followed by one of the
  notes; it is kept as the pair of the two.
\<close>

record analyst_agent = "proposal base_agent" +
  requires_scout_alignment :: bool

definition AnalystAgent :: analyst_agent where
  "AnalystAgent =
     \<lparr>name = ''Analyst'', status = Idle, last_decision = None, memory = initial_memory,
      requires_scout_alignment = False\<rparr>"

definition analyst_adapt :: "analyst_agent \<Rightarrow> analyst_agent" where
  "analyst_adapt a =
     (let a1 = a\<lparr>memory := (memory a)\<lparr>adaptations := []\<rparr>\<rparr> in
      if current_streak (memory a1) \<le> - 2 then
        a1\<lparr>requires_scout_alignment := True,
           memory := (memory a1)\<lparr>adaptations :=
             adaptations (memory a1) @ [''Requiring Scout Alignment (Loss Streak)'']\<rparr>\<rparr>
      else if current_streak (memory a1) \<ge> 2 then
        a1\<lparr>requires_scout_alignment := False,
           memory := (memory a1)\<lparr>adaptations :=
             adaptations (memory a1) @ [''Relaxed Alignment (Win Streak)'']\<rparr>\<rparr>
      else a1)"

definition analyze ::
  "strategy_engine \<Rightarrow> analyst_agent \<Rightarrow> scout_decision \<Rightarrow> real list \<Rightarrow>
   error + (proposal \<times> analyst_agent)" where
  "analyze se a scout_result historical_data =
     (case generate_signal se historical_data of
        Inl e \<Rightarrow> Inl e
      | Inr sma_signal \<Rightarrow>
          (let (final_signal, note) =
                 (if sma_signal \<noteq> HOLD then
                    (if requires_scout_alignment a then
                       (if sma_signal = scout_signal scout_result
                        then (sma_signal, Confirmed_by_Scout_Alignment)
                        else (HOLD, Rejected_Scout_divergence (scout_signal scout_result)))
                     else (sma_signal, Base_Strategy_Executing))
                  else (HOLD, No_analyst_note));
               d = \<lparr>proposal_signal = final_signal, proposal_sma_signal = sma_signal,
                    proposal_note = note\<rparr>
           in Inr (d, a\<lparr>status := Analyzed final_signal, last_decision := Some d\<rparr>)))"

section \<open>Risk limits (\<^verbatim>\<open>RiskEngine\<close>)\<close>

record risk_engine =
  max_position_pct :: real
  max_exposure_pct :: real

definition RiskEngine :: risk_engine where
  "RiskEngine = \<lparr>max_position_pct = 2 / 10, max_exposure_pct = 8 / 10\<rparr>"

definition validate_position_size :: "risk_engine \<Rightarrow> real \<Rightarrow> real \<Rightarrow> bool" where
  "validate_position_size r current_portfolio_value proposed_trade_value =
     (let max_allowed_value = current_portfolio_value * max_position_pct r
      in proposed_trade_value \<le> max_allowed_value)"

definition validate_exposure :: "risk_engine \<Rightarrow> real \<Rightarrow> real \<Rightarrow> real \<Rightarrow> bool" where
  "validate_exposure r current_portfolio_value total_open_positions_value proposed_trade_value =
     (let max_allowed_exposure = current_portfolio_value * max_exposure_pct r
      in total_open_positions_value + proposed_trade_value \<le> max_allowed_exposure)"

definition calculate_position_size :: "risk_engine \<Rightarrow> real \<Rightarrow> real \<Rightarrow> error + real" where
  "calculate_position_size r current_portfolio_value current_price =
     (let trade_value = current_portfolio_value * max_position_pct r
      in if current_price = 0 then Inl ZeroDivisionError
         else Inr (trade_value / current_price))"

text \<open>
  \<^verbatim>\<open>calculate_position_size\<close> called with keyword arguments only. Python binds a
  keyword to the parameter of that name, \<^verbatim>\<open>current_portfolio_value\<close> or
  \<^verbatim>\<open>current_price\<close>; a keyword that names neither, and a parameter left without a
  value, raise \<^verbatim>\<open>TypeError\<close>.
\<close>

definition calculate_position_size_kwargs ::
  "risk_engine \<Rightarrow> (string \<times> real) list \<Rightarrow> error + real" where
  "calculate_position_size_kwargs r kwargs =
     (if \<not> list_all (\<lambda>(k, v). k = ''current_portfolio_value'' \<or> k = ''current_price'') kwargs
      then Inl TypeError
      else
        case (map_of kwargs ''current_portfolio_value'', map_of kwargs ''current_price'') of
          (Some current_portfolio_value, Some current_price) \<Rightarrow>
            calculate_position_size r current_portfolio_value current_price
        | _ \<Rightarrow> Inl TypeError)"

definition update_risk_parameters :: "risk_engine \<Rightarrow> real \<Rightarrow> real \<Rightarrow> risk_engine" where
  "update_risk_parameters r position_pct exposure_pct =
     (let r1 = (if 0 < position_pct \<and> position_pct \<le> 1
                then r\<lparr>max_position_pct := position_pct\<rparr> else r)
      in if 0 < exposure_pct \<and> exposure_pct \<le> 1
         then r1\<lparr>max_exposure_pct := exposure_pct\<rparr> else r1)"

section \<open>Risk guardian (\<^verbatim>\<open>RiskGuardianAgent\<close>)\<close>

datatype risk_limit = Max_Position_Size_limit | Max_Exposure_limit

datatype decision_reason =
    Blocked_by_active_cooldown
  | No_trade_proposed
  | Sell_approved_by_risk_logic
  | Sizing_approved real
  | Risk_Rejected risk_limit

text \<open>
  The constructors of \<open>decision_reason\<close> stand for \<^verbatim>\<open>"Blocked by active cooldown."\<close>,
  \<^verbatim>\<open>"No trade proposed."\<close>, \<^verbatim>\<open>"Sell approved by risk logic."\<close>,
  \<^verbatim>\<open>f"Sizing approved (Modifier: {self.size_modifier}x)"\<close> and
  \<^verbatim>\<open>f"Risk Rejected: {reason}"\<close> with \<^verbatim>\<open>reason\<close> one of \<^verbatim>\<open>"Max Position Size limit"\<close>
  and \<^verbatim>\<open>"Max Exposure limit"\<close>.
\<close>

record decision =
  decision_signal :: signal
  decision_amount :: real
  decision_reason :: decision_reason

record guardian_agent = "decision base_agent" +
  cooldown_cycles_remaining :: int
  size_modifier :: real

definition RiskGuardianAgent :: guardian_agent where
  "RiskGuardianAgent =
     \<lparr>name = ''Risk Guardian'', status = Idle, last_decision = None, memory = initial_memory,
      cooldown_cycles_remaining = 0, size_modifier = 1\<rparr>"

definition guardian_adapt :: "guardian_agent \<Rightarrow> guardian_agent" where
  "guardian_adapt g =
     (let g1 = g\<lparr>memory := (memory g)\<lparr>adaptations := []\<rparr>\<rparr> in
      if current_streak (memory g1) \<le> - 3 then
        (let g2 = (if cooldown_cycles_remaining g1 = 0
                   then g1\<lparr>cooldown_cycles_remaining := 5\<rparr> else g1)
         in g2\<lparr>size_modifier := 5 / 10,
               memory := (memory g2)\<lparr>adaptations :=
                 adaptations (memory g2) @ [''Active Cooldown'', ''Reduced Sizing (-50%)'']\<rparr>\<rparr>)
      else if current_streak (memory g1) \<le> - 1 then
        g1\<lparr>size_modifier := 75 / 100,
           memory := (memory g1)\<lparr>adaptations :=
             adaptations (memory g1) @ [''Cautious Sizing (-25%)'']\<rparr>\<rparr>
      else if current_streak (memory g1) \<ge> 3 then
        g1\<lparr>size_modifier := 125 / 100,
           memory := (memory g1)\<lparr>adaptations :=
             adaptations (memory g1) @ [''Aggressive Sizing (+25%)'']\<rparr>\<rparr>
      else g1\<lparr>size_modifier := 1\<rparr>)"

text \<open>
  \<^verbatim>\<open>evaluate\<close>. For a \<^verbatim>\<open>BUY\<close> the source calls
  \<^verbatim>\<open>calculate_position_size(portfolio_value=..., current_price=...)\<close>; the sizing and the
  two validations follow the call.
\<close>

definition evaluate ::
  "risk_engine \<Rightarrow> guardian_agent \<Rightarrow> proposal \<Rightarrow> real \<Rightarrow> real \<Rightarrow> real \<Rightarrow>
   error + (decision \<times> guardian_agent)" where
  "evaluate r g analyst_proposal current_portfolio_value total_open_value current_price =
     (let sig = proposal_signal analyst_proposal in
      if cooldown_cycles_remaining g > 0 then
        (let g1 = g\<lparr>cooldown_cycles_remaining := cooldown_cycles_remaining g - 1\<rparr>;
             g2 = (if cooldown_cycles_remaining g1 > 0
                   then g1\<lparr>status := Cooldown_Active (cooldown_cycles_remaining g1)\<rparr>
                   else (guardian_adapt g1)\<lparr>status := Cooldown_Finished\<rparr>);
             d = \<lparr>decision_signal = HOLD, decision_amount = 0,
                  decision_reason = Blocked_by_active_cooldown\<rparr>
         in Inr (d, g2\<lparr>last_decision := Some d\<rparr>))
      else if sig = HOLD then
        (let d = \<lparr>decision_signal = HOLD, decision_amount = 0,
                  decision_reason = No_trade_proposed\<rparr>
         in Inr (d, g\<lparr>status := No_Action_Required, last_decision := Some d\<rparr>))
      else if sig = SELL then
        (let d = \<lparr>decision_signal = SELL, decision_amount = - 1,
                  decision_reason = Sell_approved_by_risk_logic\<rparr>
         in Inr (d, g\<lparr>status := Approved_SELL, last_decision := Some d\<rparr>))
      else
        case calculate_position_size_kwargs r
               [(''portfolio_value'', current_portfolio_value),
                (''current_price'', current_price)] of
          Inl e \<Rightarrow> Inl e
        | Inr base_calc_amount \<Rightarrow>
            (let proposed_amount = base_calc_amount * size_modifier g;
                 proposed_value = proposed_amount * current_price;
                 valid_size = validate_position_size r current_portfolio_value proposed_value;
                 valid_exposure =
                   validate_exposure r current_portfolio_value total_open_value proposed_value
             in if valid_size \<and> valid_exposure then
                  (let d = \<lparr>decision_signal = BUY, decision_amount = proposed_amount,
                            decision_reason = Sizing_approved (size_modifier g)\<rparr>
                   in Inr (d, g\<lparr>status := Approved_BUY, last_decision := Some d\<rparr>))
                else
                  (let reason = (if \<not> valid_size then Max_Position_Size_limit
                                 else Max_Exposure_limit);
                       d = \<lparr>decision_signal = HOLD, decision_amount = 0,
                            decision_reason = Risk_Rejected reason\<rparr>
                   in Inr (d, g\<lparr>status := Rejected_BUY, last_decision := Some d\<rparr>))))"

section \<open>Ledger (\<^verbatim>\<open>PortfolioEngine\<close>)\<close>

record position =
  amount :: real
  average_entry_price :: real

text \<open>
  The dictionary \<^verbatim>\<open>positions\<close> is an association list in insertion order, as a Python
  dictionary iterates: \<open>AList.update\<close> overwrites the value of a key in place and puts a
  new key last, \<open>AList.delete\<close> removes a key.
\<close>

record portfolio_engine =
  initial_balance :: real
  cash_balance :: real
  positions :: "(string \<times> position) list"

definition PortfolioEngine :: "real \<Rightarrow> portfolio_engine" where
  "PortfolioEngine balance =
     \<lparr>initial_balance = balance, cash_balance = balance, positions = []\<rparr>"

definition get_portfolio_value :: "portfolio_engine \<Rightarrow> (string \<rightharpoonup> real) \<Rightarrow> real" where
  "get_portfolio_value p current_prices =
     foldl (\<lambda>total_value (symbol, pos).
              case current_prices symbol of
                Some price \<Rightarrow> total_value + amount pos * price
              | None \<Rightarrow> total_value)
           (cash_balance p) (positions p)"

text \<open>
  \<^verbatim>\<open>add_position\<close>. The cash is debited before the average price is computed; when
  the merged amount is zero that division raises and the model returns the error.
\<close>

definition add_position ::
  "portfolio_engine \<Rightarrow> string \<Rightarrow> real \<Rightarrow> real \<Rightarrow> error + (bool \<times> portfolio_engine)" where
  "add_position p symbol amt price =
     (let cost = amt * price in
      if cost > cash_balance p then Inr (False, p)
      else
        (let p1 = p\<lparr>cash_balance := cash_balance p - cost\<rparr> in
         case map_of (positions p1) symbol of
           Some old \<Rightarrow>
             (let old_amount = amount old;
                  old_price = average_entry_price old;
                  new_amount = old_amount + amt
              in if new_amount = 0 then Inl ZeroDivisionError
                 else
                   (let new_price = (old_amount * old_price + amt * price) / new_amount
                    in Inr (True, p1\<lparr>positions :=
                         AList.update symbol
                           \<lparr>amount = new_amount, average_entry_price = new_price\<rparr>
                           (positions p1)\<rparr>)))
         | None \<Rightarrow>
             Inr (True, p1\<lparr>positions :=
               AList.update symbol \<lparr>amount = amt, average_entry_price = price\<rparr>
                 (positions p1)\<rparr>)))"

definition remove_position ::
  "portfolio_engine \<Rightarrow> string \<Rightarrow> real \<Rightarrow> real \<Rightarrow> bool \<times> portfolio_engine" where
  "remove_position p symbol amt price =
     (case map_of (positions p) symbol of
        None \<Rightarrow> (False, p)
      | Some pos \<Rightarrow>
          if amount pos < amt then (False, p)
          else
            (let sale_value = amt * price;
                 p1 = p\<lparr>cash_balance := cash_balance p + sale_value\<rparr>;
                 pos1 = pos\<lparr>amount := amount pos - amt\<rparr>;
                 p2 = p1\<lparr>positions := AList.update symbol pos1 (positions p1)\<rparr>
             in if amount pos1 < 1 / 100000000
                then (True, p2\<lparr>positions := AList.delete symbol (positions p2)\<rparr>)
                else (True, p2)))"

definition get_position :: "portfolio_engine \<Rightarrow> string \<Rightarrow> position option" where
  "get_position p symbol = map_of (positions p) symbol"

definition get_all_positions :: "portfolio_engine \<Rightarrow> (string \<times> position) list" where
  "get_all_positions p = positions p"

definition get_cash_balance :: "portfolio_engine \<Rightarrow> real" where
  "get_cash_balance p = cash_balance p"

section \<open>Ledger operations with their roundings\<close>

text \<open>
  Rounding to the nearest double, ties to even, for the normal range of doubles
  (53 significant bits; overflow and subnormal numbers are not modelled): the result of
  each float operation of Python is the rounding of its exact result, and a decimal
  literal is the rounding of its value.
\<close>

definition round_even :: "real \<Rightarrow> int" where
  "round_even x =
     (let f = \<lfloor>x\<rfloor>; r = x - of_int f
      in if r < 1 / 2 then f else if 1 / 2 < r then f + 1 else if even f then f else f + 1)"

definition double :: "real \<Rightarrow> real" where
  "double x =
     (if x = 0 then 0
      else (let e = \<lfloor>log 2 \<bar>x\<bar>\<rfloor>; ulp = 2 powr (of_int e - 52)
            in of_int (round_even (x / ulp)) * ulp))"

text \<open>
  \<^verbatim>\<open>add_position\<close> and \<^verbatim>\<open>remove_position\<close> once more, with the rounding \<open>rnd\<close> of every
  float operation written out, the literal \<^verbatim>\<open>1e-8\<close> included. With the identity as
  rounding they are the two functions above; with \<open>double\<close> they compute what the
  program computes.
\<close>

definition add_position_rounded ::
  "(real \<Rightarrow> real) \<Rightarrow> portfolio_engine \<Rightarrow> string \<Rightarrow> real \<Rightarrow> real \<Rightarrow>
   error + (bool \<times> portfolio_engine)" where
  "add_position_rounded rnd p symbol amt price =
     (let cost = rnd (amt * price) in
      if cost > cash_balance p then Inr (False, p)
      else
        (let p1 = p\<lparr>cash_balance := rnd (cash_balance p - cost)\<rparr> in
         case map_of (positions p1) symbol of
           Some old \<Rightarrow>
             (let old_amount = amount old;
                  old_price = average_entry_price old;
                  new_amount = rnd (old_amount + amt)
              in if new_amount = 0 then Inl ZeroDivisionError
                 else
                   (let new_price =
                          rnd (rnd (rnd (old_amount * old_price) + rnd (amt * price)) / new_amount)
                    in Inr (True, p1\<lparr>positions :=
                         AList.update symbol
                           \<lparr>amount = new_amount, average_entry_price = new_price\<rparr>
                           (positions p1)\<rparr>)))
         | None \<Rightarrow>
             Inr (True, p1\<lparr>positions :=
               AList.update symbol \<lparr>amount = amt, average_entry_price = price\<rparr>
                 (positions p1)\<rparr>)))"

definition remove_position_rounded ::
  "(real \<Rightarrow> real) \<Rightarrow> portfolio_engine \<Rightarrow> string \<Rightarrow> real \<Rightarrow> real \<Rightarrow>
   bool \<times> portfolio_engine" where
  "remove_position_rounded rnd p symbol amt price =
     (case map_of (positions p) symbol of
        None \<Rightarrow> (False, p)
      | Some pos \<Rightarrow>
          if amount pos < amt then (False, p)
          else
            (let sale_value = rnd (amt * price);
                 p1 = p\<lparr>cash_balance := rnd (cash_balance p + sale_value)\<rparr>;
                 pos1 = pos\<lparr>amount := rnd (amount pos - amt)\<rparr>;
                 p2 = p1\<lparr>positions := AList.update symbol pos1 (positions p1)\<rparr>
             in if amount pos1 < rnd (1 / 100000000)
                then (True, p2\<lparr>positions := AList.delete symbol (positions p2)\<rparr>)
                else (True, p2)))"

definition buy_then_sell ::
  "(real \<Rightarrow> real) \<Rightarrow> portfolio_engine \<Rightarrow> string \<Rightarrow> real \<Rightarrow> real \<Rightarrow>
   error + (bool \<times> bool \<times> portfolio_engine)" where
  "buy_then_sell rnd p symbol amt price =
     (case add_position_rounded rnd p symbol amt price of
        Inl e \<Rightarrow> Inl e
      | Inr (bought, p1) \<Rightarrow>
          (let (sold, p2) = remove_position_rounded rnd p1 symbol amt price
           in Inr (bought, sold, p2)))"

section \<open>Cycle (\<^verbatim>\<open>ExecutionEngine\<close>)\<close>

datatype trade_note =
    Agent_Pipeline_Executed real
  | Insufficient_cash_balance
  | PnL_Agents_memory_updated real

text \<open>
  The notes are \<^verbatim>\<open>f"Agent Pipeline Executed. Modifier: {size_modifier}x"\<close>,
  \<^verbatim>\<open>"Insufficient cash balance"\<close> and \<^verbatim>\<open>f"PnL: {realized_pnl:.2f}. Agents memory updated."\<close>.
  The timestamp of an entry is the clock's reading when the entry is written; the
  cycle writes at most one entry, so the reading is an argument of the cycle.
\<close>

record trade =
  trade_timestamp :: string
  trade_symbol :: string
  trade_action :: string
  trade_amount :: real
  trade_price :: real
  trade_value :: real
  trade_note :: trade_note

record execution_engine =
  portfolio :: portfolio_engine
  risk :: risk_engine
  strategy :: strategy_engine
  trade_history :: "trade list"
  scout :: scout_agent
  analyst :: analyst_agent
  guardian :: guardian_agent


definition log_trade ::
  "execution_engine \<Rightarrow> string \<Rightarrow> string \<Rightarrow> string \<Rightarrow> real \<Rightarrow> real \<Rightarrow> trade_note \<Rightarrow>
   execution_engine" where
  "log_trade e now symbol action amt price note =
     e\<lparr>trade_history := trade_history e @
         [\<lparr>trade_timestamp = now, trade_symbol = symbol, trade_action = action,
           trade_amount = amt, trade_price = price, trade_value = amt * price,
           trade_note = note\<rparr>]\<rparr>"

text \<open>
  The exposure passed to the guardian, \<^verbatim>\<open>total_open_value\<close> of \<^verbatim>\<open>execute_cycle\<close>: every
  position at its current price when the price map has one, at its average entry
  price otherwise.
\<close>

definition total_open_value :: "portfolio_engine \<Rightarrow> (string \<rightharpoonup> real) \<Rightarrow> real" where
  "total_open_value p current_prices =
     sum_list (map (\<lambda>(sym, pos).
                      amount pos *
                      (case current_prices sym of
                         Some price \<Rightarrow> price
                       | None \<Rightarrow> average_entry_price pos))
                   (get_all_positions p))"

text \<open>
  Steps 1 to 3 of \<^verbatim>\<open>execute_cycle\<close>: scout, analyst, the two risk inputs and the
  guardian. The result is the guardian's decision and the engine with the three
  agents as these steps leave them.
\<close>

definition guardian_decision ::
  "execution_engine \<Rightarrow> string \<Rightarrow> real \<Rightarrow> real list \<Rightarrow> error + (decision \<times> execution_engine)" where
  "guardian_decision e symbol current_price historical_data =
     (let (scout_result, sc) = scan (scout e) historical_data in
      case analyze (strategy e) (analyst e) scout_result historical_data of
        Inl err \<Rightarrow> Inl err
      | Inr (analyst_proposal, an) \<Rightarrow>
          (let current_prices = [symbol \<mapsto> current_price];
               portfolio_value = get_portfolio_value (portfolio e) current_prices;
               open_value = total_open_value (portfolio e) current_prices
           in case evaluate (risk e) (guardian e) analyst_proposal portfolio_value open_value
                     current_price of
                Inl err \<Rightarrow> Inl err
              | Inr (d, gd) \<Rightarrow> Inr (d, e\<lparr>scout := sc, analyst := an, guardian := gd\<rparr>)))"

text \<open>
  Step 4 of \<^verbatim>\<open>execute_cycle\<close>, the execution of the decision. In the \<^verbatim>\<open>SELL\<close> branch the
  source reads \<^verbatim>\<open>position['average_entry_price']\<close> after \<^verbatim>\<open>remove_position\<close> has changed
  the same dictionary; the removal touches \<^verbatim>\<open>'amount'\<close> only, so the entry price is
  the one of the position as it was looked up.
\<close>

definition execution_logic ::
  "execution_engine \<Rightarrow> string \<Rightarrow> string \<Rightarrow> real \<Rightarrow> decision \<Rightarrow> error + execution_engine" where
  "execution_logic e now symbol current_price d =
     (let final_action = decision_signal d in
      if final_action = BUY then
        (let proposed_amount = decision_amount d in
         case add_position (portfolio e) symbol proposed_amount current_price of
           Inl err \<Rightarrow> Inl err
         | Inr (success, p1) \<Rightarrow>
             if success then
               Inr (log_trade (e\<lparr>portfolio := p1\<rparr>) now symbol ''BUY'' proposed_amount
                      current_price (Agent_Pipeline_Executed (size_modifier (guardian e))))
             else
               Inr (log_trade (e\<lparr>portfolio := p1\<rparr>) now symbol ''REJECTED_FUNDS''
                      proposed_amount current_price Insufficient_cash_balance))
      else if final_action = SELL then
        (case get_position (portfolio e) symbol of
           None \<Rightarrow> Inr e
         | Some pos \<Rightarrow>
             if amount pos > 0 then
               (let amount_to_sell = amount pos;
                    (success, p1) =
                      remove_position (portfolio e) symbol amount_to_sell current_price
                in if success then
                     (let entry_price = average_entry_price pos;
                          realized_pnl = (current_price - entry_price) * amount_to_sell;
                          e1 = e\<lparr>portfolio := p1,
                                 scout := update_memory scout_adapt (scout e) realized_pnl,
                                 analyst := update_memory analyst_adapt (analyst e) realized_pnl,
                                 guardian :=
                                   update_memory guardian_adapt (guardian e) realized_pnl\<rparr>
                      in Inr (log_trade e1 now symbol ''SELL'' amount_to_sell current_price
                                (PnL_Agents_memory_updated realized_pnl)))
                   else Inr (e\<lparr>portfolio := p1\<rparr>))
             else Inr e)
      else Inr e)"

definition execute_cycle ::
  "execution_engine \<Rightarrow> string \<Rightarrow> string \<Rightarrow> real \<Rightarrow> real list \<Rightarrow> error + execution_engine" where
  "execute_cycle e now symbol current_price historical_data =
     (case guardian_decision e symbol current_price historical_data of
        Inl err \<Rightarrow> Inl err
      | Inr (d, e1) \<Rightarrow> execution_logic e1 now symbol current_price d)"

section \<open>Call sequences and the notions the properties are stated with\<close>

text \<open>Consecutive calls of \<^verbatim>\<open>evaluate\<close> on one guardian, the decisions in call order.\<close>

fun evaluate_calls ::
  "risk_engine \<Rightarrow> guardian_agent \<Rightarrow> (proposal \<times> real \<times> real \<times> real) list \<Rightarrow>
   error + (decision list \<times> guardian_agent)" where
  "evaluate_calls r g [] = Inr ([], g)"
| "evaluate_calls r g ((prop, pv, ov, price) # calls) =
     (case evaluate r g prop pv ov price of
        Inl e \<Rightarrow> Inl e
      | Inr (d, g1) \<Rightarrow>
          (case evaluate_calls r g1 calls of
             Inl e \<Rightarrow> Inl e
           | Inr (ds, g2) \<Rightarrow> Inr (d # ds, g2)))"

text \<open>The decision of a call that the cooldown blocks.\<close>

definition cooldown_hold :: decision where
  "cooldown_hold = \<lparr>decision_signal = HOLD, decision_amount = 0,
                     decision_reason = Blocked_by_active_cooldown\<rparr>"

text \<open>A fresh guardian after three settled losses, and a \<^verbatim>\<open>BUY\<close> proposal with its inputs.\<close>

definition three_losses :: guardian_agent where
  "three_losses =
     update_memory guardian_adapt
       (update_memory guardian_adapt (update_memory guardian_adapt RiskGuardianAgent (- 1)) (- 1))
       (- 1)"

definition three_wins :: guardian_agent where
  "three_wins =
     update_memory guardian_adapt
       (update_memory guardian_adapt (update_memory guardian_adapt RiskGuardianAgent 1) 1) 1"

definition buy_proposal :: proposal where
  "buy_proposal = \<lparr>proposal_signal = BUY, proposal_sma_signal = BUY,
                    proposal_note = Base_Strategy_Executing\<rparr>"

definition buy_call :: "proposal \<times> real \<times> real \<times> real" where
  "buy_call = (buy_proposal, 10000, 0, 100)"

definition sell_proposal :: proposal where
  "sell_proposal = \<lparr>proposal_signal = SELL, proposal_sma_signal = SELL,
                     proposal_note = Base_Strategy_Executing\<rparr>"

definition sell_call :: "proposal \<times> real \<times> real \<times> real" where
  "sell_call = (sell_proposal, 10000, 0, 100)"

text \<open>
  Calls of the two ledger operations, run in order from a ledger. A call that is
  refused (\<^verbatim>\<open>False\<close>) leaves the ledger as it is; a call that raises ends the run.
\<close>

datatype ledger_call =
    Add_position string real real
  | Remove_position string real real

fun apply_call :: "portfolio_engine \<Rightarrow> ledger_call \<Rightarrow> error + portfolio_engine" where
  "apply_call p (Add_position symbol amt price) =
     map_sum id snd (add_position p symbol amt price)"
| "apply_call p (Remove_position symbol amt price) =
     Inr (snd (remove_position p symbol amt price))"

fun run_calls :: "portfolio_engine \<Rightarrow> ledger_call list \<Rightarrow> error + portfolio_engine" where
  "run_calls p [] = Inr p"
| "run_calls p (c # cs) =
     (case apply_call p c of Inl e \<Rightarrow> Inl e | Inr p1 \<Rightarrow> run_calls p1 cs)"

fun buys_at_least :: "real \<Rightarrow> ledger_call \<Rightarrow> bool" where
  "buys_at_least m (Add_position symbol amt price) = (m \<le> amt)"
| "buys_at_least m (Remove_position symbol amt price) = True"

definition entries_at_least :: "real \<Rightarrow> portfolio_engine \<Rightarrow> bool" where
  "entries_at_least m p \<longleftrightarrow>
     (\<forall>sym pos. get_position p sym = Some pos \<longrightarrow> m \<le> amount pos)"

definition held_ledger :: portfolio_engine where
  "held_ledger = \<lparr>initial_balance = 1100, cash_balance = 1000,
                   positions = [(''BTCUSDT'', \<lparr>amount = 1, average_entry_price = 100\<rparr>)]\<rparr>"

text \<open>
  The doubles of a round trip: a cash balance of \<^verbatim>\<open>9603.88\<close>, an amount of \<^verbatim>\<open>1.37\<close>, a
  price of \<^verbatim>\<open>75.96\<close>, the cost of the trade, the balance after the debit and the
  balance after the credit; and the double of \<^verbatim>\<open>1e-8\<close>.
\<close>

definition d_dust :: real where "d_dust = double (1 / 100000000)"
definition d_cash :: real where "d_cash = double (960388 / 100)"
definition d_amount :: real where "d_amount = double (137 / 100)"
definition d_price :: real where "d_price = double (7596 / 100)"
definition d_cost :: real where "d_cost = double (d_amount * d_price)"
definition d_debited :: real where "d_debited = double (d_cash - d_cost)"
definition d_credited :: real where "d_credited = double (d_debited + d_cost)"

definition float_ledger :: portfolio_engine where
  "float_ledger = PortfolioEngine d_cash"

text \<open>
  The simple moving average in the words of the specification: the mean of the \<open>w\<close>
  most recent closes ending at position \<open>i\<close>, undefined where fewer than \<open>w\<close> closes
  are there.
\<close>

definition sma :: "int \<Rightarrow> real list \<Rightarrow> nat \<Rightarrow> real option" where
  "sma w xs i =
     (if 0 < w \<and> nat w \<le> i + 1 \<and> i < length xs
      then Some ((\<Sum>j \<leftarrow> [i + 1 - nat w..<i + 1]. xs ! j) / real_of_int w)
      else None)"

text \<open>
  The value of the entries of the traded symbol at the cycle's price, and the value
  of the entries of every other symbol at their average entry prices.
\<close>

definition traded_value :: "portfolio_engine \<Rightarrow> string \<Rightarrow> real \<Rightarrow> real" where
  "traded_value p symbol price =
     (\<Sum>(sym, pos) \<leftarrow> positions p. if sym = symbol then amount pos * price else 0)"

definition other_entry_value :: "portfolio_engine \<Rightarrow> string \<Rightarrow> real" where
  "other_entry_value p symbol =
     (\<Sum>(sym, pos) \<leftarrow> positions p.
        if sym = symbol then 0 else amount pos * average_entry_price pos)"

text \<open>An engine with windows 1 and 2 that holds one unit bought at 100, and one that holds nothing.\<close>

definition fast_strategy :: strategy_engine where
  "fast_strategy = \<lparr>short_window = 1, long_window = 2\<rparr>"



text \<open>
  The guardian after three losses and four blocked calls, one call before its counter
  reaches zero, and the holding engine with this guardian.
\<close>

definition cooling_guardian :: guardian_agent where
  "cooling_guardian =
     three_losses\<lparr>cooldown_cycles_remaining := 1, status := Cooldown_Active 1,
                  last_decision := Some cooldown_hold\<rparr>"


text \<open>The decision of the guardian that approves a \<^verbatim>\<open>SELL\<close>.\<close>

definition approved_sell :: decision where
  "approved_sell = \<lparr>decision_signal = SELL, decision_amount = - 1,
                      decision_reason = Sell_approved_by_risk_logic\<rparr>"

section \<open>Properties of the agent memory\<close>

lemma record_outcome_streak:
  "current_streak (record_outcome m pnl) =
     (if pnl > 0 then (if current_streak m > 0 then current_streak m + 1 else 1)
      else if pnl < 0 then (if current_streak m < 0 then current_streak m - 1 else - 1)
      else current_streak m)"
  by (simp add: record_outcome_def Let_def)

lemma scout_adapt_streak:
  "current_streak (memory (scout_adapt s)) = current_streak (memory s)"
  by (simp add: scout_adapt_def Let_def)

lemma analyst_adapt_streak:
  "current_streak (memory (analyst_adapt a)) = current_streak (memory a)"
  by (simp add: analyst_adapt_def Let_def)

lemma guardian_adapt_streak:
  "current_streak (memory (guardian_adapt g)) = current_streak (memory g)"
  by (simp add: guardian_adapt_def Let_def)

text \<open>
  Claim C3, as amended. Let \<open>s\<close> be the streak of any of the three agents before
  \<^verbatim>\<open>update_memory(realized_pnl)\<close> and \<open>s'\<close> the streak after it. For a profit or a loss
  (\<open>pnl \<noteq> 0\<close>) the streak after the call is not zero; a win on a streak that is not
  positive gives \<open>+1\<close> and a loss on a streak that is not negative gives \<open>-1\<close>; a win on
  a win streak and a loss on a loss streak move the streak one further from zero.
  A trade that breaks even (\<open>pnl = 0\<close>) leaves the streak as it was, zero included.
\<close>

theorem update_memory_streak:
  fixes sc :: scout_agent and an :: analyst_agent and gd :: guardian_agent
  assumes "(s, s') = (current_streak (memory sc),
                      current_streak (memory (update_memory scout_adapt sc pnl))) \<or>
           (s, s') = (current_streak (memory an),
                      current_streak (memory (update_memory analyst_adapt an pnl))) \<or>
           (s, s') = (current_streak (memory gd),
                      current_streak (memory (update_memory guardian_adapt gd pnl)))"
  shows "(pnl \<noteq> 0 \<longrightarrow> s' \<noteq> 0) \<and>
         (pnl > 0 \<and> s \<le> 0 \<longrightarrow> s' = 1) \<and>
         (pnl < 0 \<and> s \<ge> 0 \<longrightarrow> s' = - 1) \<and>
         (pnl > 0 \<and> s > 0 \<longrightarrow> s' = s + 1) \<and>
         (pnl < 0 \<and> s < 0 \<longrightarrow> s' = s - 1) \<and>
         (pnl = 0 \<longrightarrow> s' = s)"
  using assms
  by (auto simp add: update_memory_def record_outcome_streak scout_adapt_streak
      analyst_adapt_streak guardian_adapt_streak split: if_splits)

theorem update_memory_streak_witness:
  "(- 5 :: real) < 0 \<and> current_streak (memory RiskGuardianAgent) \<ge> 0 \<and>
   current_streak (memory (update_memory guardian_adapt RiskGuardianAgent (- 5))) = - 1"
  using update_memory_streak [of "current_streak (memory RiskGuardianAgent)"
      "current_streak (memory (update_memory guardian_adapt RiskGuardianAgent (- 5)))"
      ScoutAgent "- 5" AnalystAgent RiskGuardianAgent]
  by (simp add: RiskGuardianAgent_def initial_memory_def)

text \<open>
  Claim C3 as stated fails: the first settled trade of a fresh agent breaks even, and
  the streak after the call is zero.
\<close>

theorem breakeven_leaves_streak_zero:
  "current_streak (memory (update_memory guardian_adapt RiskGuardianAgent 0)) = 0"
  by (simp add: update_memory_def record_outcome_def guardian_adapt_def
      RiskGuardianAgent_def initial_memory_def Let_def)

section \<open>Properties of the parameter updates\<close>

text \<open>
  Claim C7. \<^verbatim>\<open>update_strategy_parameters\<close> with windows that do not satisfy
  \<open>0 < short < long\<close> leaves the engine as it is, and applies both windows otherwise.
  \<^verbatim>\<open>update_risk_parameters\<close> keeps a percentage whose new value is outside \<open>(0, 1]\<close> and
  applies a new value inside it, each of the two percentages on its own. Both
  functions return the engine; they have no error result.
\<close>

theorem parameter_updates:
  "(\<not> (0 < short \<and> short < long) \<longrightarrow> update_strategy_parameters se short long = se) \<and>
   (0 < short \<and> short < long \<longrightarrow>
      update_strategy_parameters se short long =
        se\<lparr>short_window := short, long_window := long\<rparr>) \<and>
   (\<not> (0 < pp \<and> pp \<le> 1) \<longrightarrow>
      max_position_pct (update_risk_parameters r pp ep) = max_position_pct r) \<and>
   (0 < pp \<and> pp \<le> 1 \<longrightarrow> max_position_pct (update_risk_parameters r pp ep) = pp) \<and>
   (\<not> (0 < ep \<and> ep \<le> 1) \<longrightarrow>
      max_exposure_pct (update_risk_parameters r pp ep) = max_exposure_pct r) \<and>
   (0 < ep \<and> ep \<le> 1 \<longrightarrow> max_exposure_pct (update_risk_parameters r pp ep) = ep)"
  by (auto simp add: update_strategy_parameters_def update_risk_parameters_def Let_def)

theorem parameter_updates_witness:
  "update_strategy_parameters StrategyEngine 30 10 = StrategyEngine \<and>
   update_strategy_parameters StrategyEngine 5 10 = \<lparr>short_window = 5, long_window = 10\<rparr> \<and>
   max_position_pct (update_risk_parameters RiskEngine (3 / 2) (1 / 2)) = 2 / 10 \<and>
   max_exposure_pct (update_risk_parameters RiskEngine (3 / 2) (1 / 2)) = 1 / 2 \<and>
   max_position_pct (update_risk_parameters RiskEngine (1 / 10) 0) = 1 / 10 \<and>
   max_exposure_pct (update_risk_parameters RiskEngine (1 / 10) 0) = 8 / 10"
  using parameter_updates [of 30 10 StrategyEngine "3 / 2" RiskEngine "1 / 2"]
    parameter_updates [of 5 10 StrategyEngine "1 / 10" RiskEngine 0]
  by (simp add: StrategyEngine_def RiskEngine_def)

section \<open>Properties of the guardian\<close>

lemma misnamed_keyword_raises:
  "calculate_position_size_kwargs r [(''portfolio_value'', pv), (''current_price'', price)] =
     Inl TypeError"
  by (simp add: calculate_position_size_kwargs_def)

lemma named_keywords_size:
  "calculate_position_size_kwargs r
     [(''current_portfolio_value'', pv), (''current_price'', price)] =
   calculate_position_size r pv price"
  by (simp add: calculate_position_size_kwargs_def)

text \<open>
  Claim C5 on the code. For a \<^verbatim>\<open>BUY\<close> proposal evaluated while not cooling down,
  \<^verbatim>\<open>evaluate\<close> calls \<^verbatim>\<open>calculate_position_size\<close> with the keyword \<^verbatim>\<open>portfolio_value\<close>, and
  the parameter is named \<^verbatim>\<open>current_portfolio_value\<close>: the call raises \<^verbatim>\<open>TypeError\<close>. No
  amount is computed, neither validation runs, and no decision is returned, for any
  risk limits, portfolio value, exposure and price.
\<close>

theorem evaluate_buy_raises:
  assumes "cooldown_cycles_remaining g \<le> 0" and "proposal_signal prop = BUY"
  shows "evaluate r g prop pv ov price = Inl TypeError"
  using assms by (simp add: evaluate_def misnamed_keyword_raises)

theorem evaluate_buy_raises_witness:
  "cooldown_cycles_remaining RiskGuardianAgent \<le> 0 \<and> proposal_signal buy_proposal = BUY \<and>
   evaluate RiskEngine RiskGuardianAgent buy_proposal 10000 0 100 = Inl TypeError \<and>
   evaluate RiskEngine RiskGuardianAgent buy_proposal 10000 7000 100 = Inl TypeError"
  using evaluate_buy_raises [of RiskGuardianAgent buy_proposal RiskEngine 10000 0 100]
    evaluate_buy_raises [of RiskGuardianAgent buy_proposal RiskEngine 10000 7000 100]
  by (simp add: RiskGuardianAgent_def buy_proposal_def)

text \<open>
  With the keyword spelled as the parameter is named, the same call returns the base
  amount \<open>portfolio_value * max_position_pct / current_price\<close> for a price that is not
  zero; this is the amount the lines after the call are written for.
\<close>

lemma sizing_after_the_call:
  assumes "price \<noteq> 0"
  shows "calculate_position_size_kwargs r
           [(''current_portfolio_value'', pv), (''current_price'', price)] =
         Inr (pv * max_position_pct r / price)"
  using assms by (simp add: named_keywords_size calculate_position_size_def)

lemma three_wins_state:
  "current_streak (memory three_wins) = 3 \<and> cooldown_cycles_remaining three_wins = 0 \<and>
   size_modifier three_wins = 125 / 100 \<and>
   adaptations (memory three_wins) = [''Aggressive Sizing (+25%)'']"
  by (simp add: three_wins_def update_memory_def record_outcome_def guardian_adapt_def
      RiskGuardianAgent_def initial_memory_def Let_def)

text \<open>
  Claim C9 on the code. A guardian after three wins has \<open>size_modifier = 1.25\<close> and is
  not cooling down. Evaluating a \<^verbatim>\<open>BUY\<close> proposal for it, with a positive portfolio
  value and a positive price, raises \<^verbatim>\<open>TypeError\<close> at the call of
  \<^verbatim>\<open>calculate_position_size\<close>: the proposed value is never computed and
  \<^verbatim>\<open>validate_position_size\<close> is never reached, so the proposal is not rejected for the
  position-size limit; it is not decided at all.
\<close>

theorem aggressive_sizing_raises:
  "current_streak (memory three_wins) = 3 \<and> size_modifier three_wins = 125 / 100 \<and>
   cooldown_cycles_remaining three_wins = 0 \<and> proposal_signal buy_proposal = BUY \<and>
   evaluate RiskEngine three_wins buy_proposal 10000 0 100 = Inl TypeError"
  by (simp add: three_wins_state evaluate_def buy_proposal_def misnamed_keyword_raises)

text \<open>No call of \<^verbatim>\<open>evaluate\<close> that returns decides \<^verbatim>\<open>BUY\<close>, whatever the size modifier.\<close>

lemma evaluate_never_buys:
  assumes "evaluate r g prop pv ov price = Inr (d, g1)"
  shows "decision_signal d \<noteq> BUY"
  using assms
  by (auto simp add: evaluate_def misnamed_keyword_raises Let_def split: if_splits)

section \<open>Properties of the cooldown\<close>

lemma cooldown_tick:
  assumes "cooldown_cycles_remaining g > 1"
  shows "\<exists>g1. evaluate r g prop pv ov price = Inr (cooldown_hold, g1) \<and>
           cooldown_cycles_remaining g1 = cooldown_cycles_remaining g - 1 \<and>
           memory g1 = memory g"
  using assms by (simp add: evaluate_def Let_def cooldown_hold_def)

lemma cooldown_end_refires:
  assumes "cooldown_cycles_remaining g = 1" and "current_streak (memory g) \<le> - 3"
  shows "\<exists>g1. evaluate r g prop pv ov price = Inr (cooldown_hold, g1) \<and>
           cooldown_cycles_remaining g1 = 5 \<and> status g1 = Cooldown_Finished \<and>
           current_streak (memory g1) = current_streak (memory g)"
  using assms by (simp add: evaluate_def Let_def cooldown_hold_def guardian_adapt_def)

lemma three_losses_state:
  "current_streak (memory three_losses) = - 3 \<and> cooldown_cycles_remaining three_losses = 5 \<and>
   size_modifier three_losses = 5 / 10"
  by (simp add: three_losses_def update_memory_def record_outcome_def guardian_adapt_def
      RiskGuardianAgent_def initial_memory_def Let_def)

text \<open>
  Claim C1 on the code. A guardian whose loss streak is at most \<open>-3\<close> and whose
  adaptation has just set \<open>cooldown_cycles_remaining\<close> to 5, with no memory update
  between the calls: each of the next five calls of \<^verbatim>\<open>evaluate\<close> returns \<^verbatim>\<open>HOLD\<close> with
  amount 0, whatever is proposed. The fifth call brings the counter to zero, runs
  \<^verbatim>\<open>_adapt\<close>, and \<^verbatim>\<open>_adapt\<close> finds the same streak and a counter of zero and sets the
  counter to 5 again, while the status reads \<^verbatim>\<open>"Cooldown Finished"\<close>. The sixth call is
  therefore blocked by the cooldown as well; it is not a normal evaluation.
\<close>

theorem cooldown_restarts_after_five_calls:
  assumes "current_streak (memory g) \<le> - 3" and "cooldown_cycles_remaining g = 5"
  shows "\<exists>g5 g6.
           evaluate_calls r g [c1, c2, c3, c4, c5] = Inr (replicate 5 cooldown_hold, g5) \<and>
           cooldown_cycles_remaining g5 = 5 \<and> status g5 = Cooldown_Finished \<and>
           evaluate_calls r g [c1, c2, c3, c4, c5, c6] = Inr (replicate 6 cooldown_hold, g6) \<and>
           cooldown_cycles_remaining g6 = 4"
proof -
  obtain p1 v1 o1 x1 where c1: "c1 = (p1, v1, o1, x1)" by (cases c1) auto
  obtain p2 v2 o2 x2 where c2: "c2 = (p2, v2, o2, x2)" by (cases c2) auto
  obtain p3 v3 o3 x3 where c3: "c3 = (p3, v3, o3, x3)" by (cases c3) auto
  obtain p4 v4 o4 x4 where c4: "c4 = (p4, v4, o4, x4)" by (cases c4) auto
  obtain p5 v5 o5 x5 where c5: "c5 = (p5, v5, o5, x5)" by (cases c5) auto
  obtain p6 v6 o6 x6 where c6: "c6 = (p6, v6, o6, x6)" by (cases c6) auto
  obtain g1 where e1: "evaluate r g p1 v1 o1 x1 = Inr (cooldown_hold, g1)"
    and n1: "cooldown_cycles_remaining g1 = 4" and m1: "memory g1 = memory g"
    using cooldown_tick [of g r p1 v1 o1 x1] assms(2) by auto
  obtain g2 where e2: "evaluate r g1 p2 v2 o2 x2 = Inr (cooldown_hold, g2)"
    and n2: "cooldown_cycles_remaining g2 = 3" and m2: "memory g2 = memory g1"
    using cooldown_tick [of g1 r p2 v2 o2 x2] n1 by auto
  obtain g3 where e3: "evaluate r g2 p3 v3 o3 x3 = Inr (cooldown_hold, g3)"
    and n3: "cooldown_cycles_remaining g3 = 2" and m3: "memory g3 = memory g2"
    using cooldown_tick [of g2 r p3 v3 o3 x3] n2 by auto
  obtain g4 where e4: "evaluate r g3 p4 v4 o4 x4 = Inr (cooldown_hold, g4)"
    and n4: "cooldown_cycles_remaining g4 = 1" and m4: "memory g4 = memory g3"
    using cooldown_tick [of g3 r p4 v4 o4 x4] n3 by auto
  have s4: "current_streak (memory g4) \<le> - 3"
    using assms(1) m1 m2 m3 m4 by simp
  obtain g5 where e5: "evaluate r g4 p5 v5 o5 x5 = Inr (cooldown_hold, g5)"
    and n5: "cooldown_cycles_remaining g5 = 5" and st5: "status g5 = Cooldown_Finished"
    using cooldown_end_refires [OF n4 s4, of r p5 v5 o5 x5] by auto
  obtain g6 where e6: "evaluate r g5 p6 v6 o6 x6 = Inr (cooldown_hold, g6)"
    and n6: "cooldown_cycles_remaining g6 = 4"
    using cooldown_tick [of g5 r p6 v6 o6 x6] n5 by auto
  have five: "evaluate_calls r g [c1, c2, c3, c4, c5] = Inr (replicate 5 cooldown_hold, g5)"
    by (simp add: c1 c2 c3 c4 c5 e1 e2 e3 e4 e5 numeral_eq_Suc)
  have six: "evaluate_calls r g [c1, c2, c3, c4, c5, c6] = Inr (replicate 6 cooldown_hold, g6)"
    by (simp add: c1 c2 c3 c4 c5 c6 e1 e2 e3 e4 e5 e6 numeral_eq_Suc)
  from five six n5 st5 n6 show ?thesis by blast
qed

theorem cooldown_restarts_after_five_calls_witness:
  "current_streak (memory three_losses) \<le> - 3 \<and> cooldown_cycles_remaining three_losses = 5 \<and>
   (\<exists>g6. evaluate_calls RiskEngine three_losses
           [buy_call, buy_call, buy_call, buy_call, buy_call, buy_call] =
           Inr (replicate 6 cooldown_hold, g6) \<and> cooldown_cycles_remaining g6 = 4)"
  using cooldown_restarts_after_five_calls [of three_losses RiskEngine buy_call buy_call
      buy_call buy_call buy_call buy_call]
  by (auto simp add: three_losses_state)

text \<open>
  What a normal evaluation gives once the counter is zero: a \<^verbatim>\<open>SELL\<close> proposal is
  approved. Six \<^verbatim>\<open>SELL\<close> proposals in a row are blocked all the same.
\<close>

lemma normal_evaluation_after_cooldown:
  "map_sum id fst (evaluate RiskEngine (three_losses\<lparr>cooldown_cycles_remaining := 0\<rparr>)
     sell_proposal 10000 0 100) = Inr approved_sell"
  by (simp add: evaluate_def sell_proposal_def approved_sell_def Let_def)

lemma six_sell_calls_blocked:
  "map_sum id fst (evaluate_calls RiskEngine three_losses
     [sell_call, sell_call, sell_call, sell_call, sell_call, sell_call]) =
   Inr [cooldown_hold, cooldown_hold, cooldown_hold, cooldown_hold, cooldown_hold,
        cooldown_hold]"
  by (simp add: sell_call_def evaluate_def three_losses_state cooldown_hold_def
      guardian_adapt_streak guardian_adapt_def Let_def)

text \<open>
  The cooldown does not end: while the streak is at most \<open>-3\<close>, every call of any
  sequence is blocked, and a blocked call leaves the streak as it is. In a cycle a
  blocked decision is a \<^verbatim>\<open>HOLD\<close>, so no sale settles and the streak is never updated.
\<close>

lemma locked_step:
  assumes "current_streak (memory g) \<le> - 3" and "0 < cooldown_cycles_remaining g"
  shows "\<exists>g1. evaluate r g prop pv ov price = Inr (cooldown_hold, g1) \<and>
           current_streak (memory g1) \<le> - 3 \<and> 0 < cooldown_cycles_remaining g1"
  using assms by (auto simp add: evaluate_def Let_def cooldown_hold_def guardian_adapt_def)

lemma cooldown_never_ends:
  assumes "current_streak (memory g) \<le> - 3" and "0 < cooldown_cycles_remaining g"
  shows "\<exists>g1. evaluate_calls r g calls = Inr (replicate (length calls) cooldown_hold, g1) \<and>
           current_streak (memory g1) \<le> - 3 \<and> 0 < cooldown_cycles_remaining g1"
  using assms
proof (induction calls arbitrary: g)
  case Nil
  then show ?case by simp
next
  case (Cons c calls)
  obtain q pv ov price where c: "c = (q, pv, ov, price)" by (cases c) auto
  from locked_step [OF Cons.prems, of r q pv ov price]
  obtain g1 where e: "evaluate r g q pv ov price = Inr (cooldown_hold, g1)"
    and inv: "current_streak (memory g1) \<le> - 3" "0 < cooldown_cycles_remaining g1" by auto
  from Cons.IH [OF inv] obtain g2 where
    "evaluate_calls r g1 calls = Inr (replicate (length calls) cooldown_hold, g2)"
    "current_streak (memory g2) \<le> - 3" "0 < cooldown_cycles_remaining g2" by auto
  then show ?case using e c by auto
qed

section \<open>Properties of the ledger\<close>

lemma add_position_entries:
  assumes "entries_at_least m p" and "m \<le> amt" and "0 < m"
  shows "\<exists>ok p1. add_position p symbol amt price = Inr (ok, p1) \<and> entries_at_least m p1"
proof (cases "amt * price > cash_balance p")
  case True
  then show ?thesis using assms by (auto simp add: add_position_def)
next
  case False
  show ?thesis
  proof (cases "map_of (positions p) symbol")
    case None
    then show ?thesis using False assms
      by (auto simp add: add_position_def entries_at_least_def get_position_def update_conv')
  next
    case (Some old)
    then have "m \<le> amount old"
      using assms(1) by (simp add: entries_at_least_def get_position_def)
    then have "amount old + amt \<noteq> 0" "m \<le> amount old + amt"
      using assms(2,3) by linarith+
    then show ?thesis using False Some assms(1)
      by (auto simp add: add_position_def entries_at_least_def get_position_def update_conv'
          Let_def)
  qed
qed

lemma remove_position_entries:
  assumes "entries_at_least (1 / 100000000) p"
  shows "entries_at_least (1 / 100000000) (snd (remove_position p symbol amt price))"
  using assms
  by (auto simp add: remove_position_def entries_at_least_def get_position_def update_conv'
      delete_conv' Let_def split: option.splits if_splits)

lemma run_calls_entries:
  assumes "entries_at_least (1 / 100000000) p"
    and "\<forall>c \<in> set calls. buys_at_least (1 / 100000000) c"
  shows "\<exists>p1. run_calls p calls = Inr p1 \<and> entries_at_least (1 / 100000000) p1"
  using assms
proof (induction calls arbitrary: p)
  case Nil
  then show ?case by simp
next
  case (Cons c cs)
  show ?case
  proof (cases c)
    case (Add_position symbol amt price)
    with Cons.prems have "1 / 100000000 \<le> amt" by simp
    from add_position_entries [OF Cons.prems(1) this, of symbol price]
    obtain ok p1 where "add_position p symbol amt price = Inr (ok, p1)"
      and "entries_at_least (1 / 100000000) p1" by auto
    with Cons.IH [of p1] Cons.prems(2) Add_position show ?thesis by auto
  next
    case (Remove_position symbol amt price)
    with Cons.IH [OF remove_position_entries [OF Cons.prems(1), of symbol amt price]]
      Cons.prems(2)
    show ?thesis by auto
  qed
qed

text \<open>
  Claim C2, as amended. From the initial ledger, every sequence of \<^verbatim>\<open>add_position\<close> and
  \<^verbatim>\<open>remove_position\<close> calls whose buys are of at least \<open>1e-8\<close> units runs without an
  error, and in the ledger it reaches every entry of the positions map has an
  amount of at least \<open>1e-8\<close>: a symbol has an entry only with an amount \<open>\<ge> 1e-8\<close>.
\<close>

theorem ledger_entries_at_least_dust:
  assumes "\<forall>c \<in> set calls. buys_at_least (1 / 100000000) c"
  shows "\<exists>p. run_calls (PortfolioEngine balance) calls = Inr p \<and>
             (\<forall>sym pos. get_position p sym = Some pos \<longrightarrow> 1 / 100000000 \<le> amount pos)"
proof -
  have "entries_at_least (1 / 100000000) (PortfolioEngine balance)"
    by (simp add: entries_at_least_def PortfolioEngine_def get_position_def)
  from run_calls_entries [OF this assms] show ?thesis
    by (simp add: entries_at_least_def)
qed

theorem ledger_entries_at_least_dust_witness:
  "buys_at_least (1 / 100000000) (Add_position ''BTCUSDT'' 1 100) \<and>
   buys_at_least (1 / 100000000) (Remove_position ''BTCUSDT'' (1 / 2) 120) \<and>
   run_calls (PortfolioEngine 10000)
     [Add_position ''BTCUSDT'' 1 100, Remove_position ''BTCUSDT'' (1 / 2) 120] =
     Inr \<lparr>initial_balance = 10000, cash_balance = 9960,
          positions = [(''BTCUSDT'', \<lparr>amount = 1 / 2, average_entry_price = 100\<rparr>)]\<rparr> \<and>
   (1 :: real) / 100000000 \<le> 1 / 2"
  using ledger_entries_at_least_dust
    [of "[Add_position ''BTCUSDT'' 1 100, Remove_position ''BTCUSDT'' (1 / 2) 120]" 10000]
  by (simp add: PortfolioEngine_def add_position_def remove_position_def Let_def)

text \<open>
  Claim C2 as stated fails twice. A buy of amount 0 at a positive price is accepted
  and leaves an entry of amount 0. A buy of \<open>2e-8\<close> followed by a sale of \<open>1e-8\<close> leaves
  an entry of exactly \<open>1e-8\<close>, which the clean-up (\<open>amount < 1e-8\<close>) keeps and which is not
  strictly greater than \<open>1e-8\<close>.
\<close>

theorem zero_buy_leaves_entry:
  "run_calls (PortfolioEngine 10000) [Add_position ''BTCUSDT'' 0 100] =
     Inr \<lparr>initial_balance = 10000, cash_balance = 10000,
          positions = [(''BTCUSDT'', \<lparr>amount = 0, average_entry_price = 100\<rparr>)]\<rparr> \<and>
   \<not> ((0 :: real) > 1 / 100000000) \<and>
   run_calls (PortfolioEngine 10000)
     [Add_position ''BTCUSDT'' (2 / 100000000) 100,
      Remove_position ''BTCUSDT'' (1 / 100000000) 100] =
     Inr \<lparr>initial_balance = 10000, cash_balance = 10000 - 1 / 1000000,
          positions = [(''BTCUSDT'', \<lparr>amount = 1 / 100000000, average_entry_price = 100\<rparr>)]\<rparr>"
  by (simp add: PortfolioEngine_def add_position_def remove_position_def Let_def)

text \<open>
  A second buy of amount 0 of a symbol held with amount 0 divides by the merged
  amount, which is zero.
\<close>

lemma second_zero_buy_raises:
  "run_calls (PortfolioEngine 10000)
     [Add_position ''BTCUSDT'' 0 100, Add_position ''BTCUSDT'' 0 100] = Inl ZeroDivisionError"
  by (simp add: PortfolioEngine_def add_position_def Let_def)

lemma double_eval:
  fixes j :: nat
  assumes "2 ^ 52 \<le> \<bar>x\<bar> * 2 ^ j" and "\<bar>x\<bar> * 2 ^ j < 2 ^ 53"
  shows "double x = of_int (round_even (x * 2 ^ j)) / 2 ^ j"
proof -
  have x0: "x \<noteq> 0" using assms(1) by auto
  then have pos: "0 < \<bar>x\<bar>" by simp
  have p: "(2::real) powr (52 - of_nat j) = 2 ^ 52 / 2 ^ j"
    by (simp add: powr_diff powr_realpow)
  have p1: "(2::real) powr (52 - of_nat j + 1) = 2 ^ 53 / 2 ^ j"
    by (simp add: powr_diff powr_add powr_realpow)
  have "(2::real) ^ 52 / 2 ^ j \<le> \<bar>x\<bar>"
    using assms(1) by (simp add: pos_divide_le_eq)
  then have lo: "2 powr (of_int (52 - int j)) \<le> \<bar>x\<bar>"
    using p by simp
  have "\<bar>x\<bar> < (2::real) ^ 53 / 2 ^ j"
    using assms(2) by (simp add: pos_less_divide_eq)
  then have hi: "\<bar>x\<bar> < 2 powr (of_int (52 - int j) + 1)"
    using p1 by simp
  have e: "\<lfloor>log 2 \<bar>x\<bar>\<rfloor> = 52 - int j"
    using lo hi pos by (simp add: floor_log_eq_powr_iff)
  have ulp: "(2::real) powr (- real j) = 1 / 2 ^ j"
    by (simp add: powr_minus powr_realpow field_simps)
  show ?thesis
    using x0 by (simp add: double_def e ulp Let_def)
qed

lemma add_position_exact: "add_position_rounded (\<lambda>x. x) p symbol amt price = add_position p symbol amt price"
  by (simp add: add_position_rounded_def add_position_def)

lemma remove_position_exact:
  "remove_position_rounded (\<lambda>x. x) p symbol amt price = remove_position p symbol amt price"
  by (simp add: remove_position_rounded_def remove_position_def)

lemma double_zero: "double 0 = 0"
  by (simp add: double_def)

lemma d_dust_value: "d_dust = 6044629098073146 / 2 ^ 79"
  unfolding d_dust_def
  by (subst double_eval [where j = 79]) (simp_all add: round_even_def Let_def)

lemma d_cash_value: "d_cash = 5279788865882685 / 2 ^ 39"
  unfolding d_cash_def
  by (subst double_eval [where j = 39]) (simp_all add: round_even_def Let_def)

lemma d_amount_value: "d_amount = 6169931489497580 / 2 ^ 52"
  unfolding d_amount_def
  by (subst double_eval [where j = 52]) (simp_all add: round_even_def Let_def)

lemma d_price_value: "d_price = 5345209807735357 / 2 ^ 46"
  unfolding d_price_def
  by (subst double_eval [where j = 46]) (simp_all add: round_even_def Let_def)

lemma d_cost_value: "d_cost = 7322937436597440 / 2 ^ 46"
  unfolding d_cost_def d_amount_value d_price_value
  by (subst double_eval [where j = 46]) (simp_all add: round_even_def Let_def)

lemma d_debited_value: "d_debited = 5222578417159268 / 2 ^ 39"
  unfolding d_debited_def d_cash_value d_cost_value
  by (subst double_eval [where j = 39]) (simp_all add: round_even_def Let_def)

lemma d_credited_value: "d_credited = 5279788865882686 / 2 ^ 39"
  unfolding d_credited_def d_debited_value d_cost_value
  by (subst double_eval [where j = 39]) (simp_all add: round_even_def Let_def)

lemma float_round_trip:
  "buy_then_sell double float_ledger ''BTCUSDT'' d_amount d_price =
     Inr (True, True,
          \<lparr>initial_balance = d_cash, cash_balance = d_credited, positions = []\<rparr>)"
proof -
  have le: "\<not> d_cash < d_cost" by (simp add: d_cash_value d_cost_value)
  have dust: "0 < d_dust" by (simp add: d_dust_value)
  show ?thesis
    using le dust
    by (simp add: buy_then_sell_def add_position_rounded_def remove_position_rounded_def
        float_ledger_def PortfolioEngine_def double_zero d_dust_def [symmetric]
        d_cost_def [symmetric] d_debited_def [symmetric] d_credited_def [symmetric] Let_def)
qed

text \<open>
  Claim C4, as amended. From a ledger in which the symbol has no entry,
  \<^verbatim>\<open>add_position(symbol, a, p)\<close> with \<open>a > 0\<close>, \<open>p > 0\<close> and a cost within the cash, followed
  by \<^verbatim>\<open>remove_position(symbol, a, p)\<close>: both calls succeed and the symbol has no entry
  afterwards. The cash balance is the balance before the buy, debited by the cost
  and credited by the same cost, each operation with its rounding; it is the balance
  before the buy where the operations are exact. This holds for every rounding that
  keeps zero and gives a positive \<^verbatim>\<open>1e-8\<close>, the exact arithmetic and the doubles among
  them.
\<close>

theorem buy_then_sell_round_trip:
  assumes "rnd 0 = 0" and "0 < rnd (1 / 100000000)"
    and "0 < amt" and "0 < price" and "rnd (amt * price) \<le> cash_balance p"
    and "get_position p symbol = None"
  shows "\<exists>p2. buy_then_sell rnd p symbol amt price = Inr (True, True, p2) \<and>
           get_position p2 symbol = None \<and>
           cash_balance p2 =
             rnd (rnd (cash_balance p - rnd (amt * price)) + rnd (amt * price)) \<and>
           ((\<forall>x. rnd x = x) \<longrightarrow> cash_balance p2 = cash_balance p)"
  using assms
  by (simp add: buy_then_sell_def add_position_rounded_def remove_position_rounded_def
      get_position_def update_conv' delete_conv' Let_def)

theorem buy_then_sell_round_trip_witness:
  "double 0 = 0 \<and> 0 < double (1 / 100000000) \<and> 0 < d_amount \<and> 0 < d_price \<and>
   double (d_amount * d_price) \<le> cash_balance float_ledger \<and>
   get_position float_ledger ''BTCUSDT'' = None \<and>
   buy_then_sell double float_ledger ''BTCUSDT'' d_amount d_price =
     Inr (True, True,
          \<lparr>initial_balance = d_cash, cash_balance = d_credited, positions = []\<rparr>)"
proof -
  have h: "double 0 = 0" "0 < double (1 / 100000000)" "0 < d_amount" "0 < d_price"
    "double (d_amount * d_price) \<le> cash_balance float_ledger"
    "get_position float_ledger ''BTCUSDT'' = None"
    using d_dust_value d_cost_value
    by (simp_all add: double_zero d_dust_def d_cost_def d_amount_value d_price_value d_cash_value
        float_ledger_def PortfolioEngine_def get_position_def)
  from buy_then_sell_round_trip [OF h] obtain p2 where
    "buy_then_sell double float_ledger ''BTCUSDT'' d_amount d_price = Inr (True, True, p2)"
    and "get_position p2 ''BTCUSDT'' = None"
    by blast
  with h float_round_trip show ?thesis by simp
qed

text \<open>
  Claim C4 as stated fails twice. A symbol that is already held keeps its entry: one
  unit bought at 100 is in the ledger; buying one more unit at 200 and selling one
  unit at 200 leaves one unit, at an average entry price of 150. And with doubles the
  cash is not restored exactly: from a balance of \<^verbatim>\<open>9603.88\<close>, buying and selling
  \<^verbatim>\<open>1.37\<close> units at \<^verbatim>\<open>75.96\<close> ends one unit in the last place above it
  (\<^verbatim>\<open>9603.880000000001\<close>).
\<close>

theorem round_trip_fails:
  "add_position (PortfolioEngine 1100) ''BTCUSDT'' 1 100 = Inr (True, held_ledger) \<and>
   cash_balance held_ledger = 1000 \<and>
   add_position held_ledger ''BTCUSDT'' 1 200 =
     Inr (True, \<lparr>initial_balance = 1100, cash_balance = 800,
                 positions = [(''BTCUSDT'', \<lparr>amount = 2, average_entry_price = 150\<rparr>)]\<rparr>) \<and>
   remove_position \<lparr>initial_balance = 1100, cash_balance = 800,
                 positions = [(''BTCUSDT'', \<lparr>amount = 2, average_entry_price = 150\<rparr>)]\<rparr>
       ''BTCUSDT'' 1 200 =
     (True, \<lparr>initial_balance = 1100, cash_balance = 1000,
             positions = [(''BTCUSDT'', \<lparr>amount = 1, average_entry_price = 150\<rparr>)]\<rparr>) \<and>
   buy_then_sell double float_ledger ''BTCUSDT'' d_amount d_price =
     Inr (True, True,
          \<lparr>initial_balance = d_cash, cash_balance = d_credited, positions = []\<rparr>) \<and>
   cash_balance float_ledger = d_cash \<and>
   d_credited - d_cash = 1 / 2 ^ 39"
  using float_round_trip
  by (simp add: PortfolioEngine_def held_ledger_def add_position_def remove_position_def
      float_ledger_def d_credited_value d_cash_value Let_def)

section \<open>Properties of the strategy\<close>

lemma iloc_last: "rows \<noteq> [] \<Longrightarrow> iloc rows (- 1) = Inr (rows ! (length rows - 1))"
  by (cases rows) (auto simp add: iloc_def nat_diff_distrib)

lemma iloc_previous:
  "iloc rows (- 2) = (if 2 \<le> length rows then Inr (rows ! (length rows - 2)) else Inl IndexError)"
  by (auto simp add: iloc_def nat_diff_distrib)

lemma crossover_rule:
  assumes "rolling (short_window se) xs = Inr shorts"
    and "rolling (long_window se) xs = Inr longs"
    and "length shorts = length xs" and "length longs = length xs"
  shows "generate_signal_with rolling se xs = Inr
    (let n = length xs in
     if int n < long_window se then HOLD
     else if n < 2 then HOLD
     else
       case (longs ! (n - 2), longs ! (n - 1)) of
         (Some long_previous, Some long_latest) \<Rightarrow>
           (case (shorts ! (n - 2), shorts ! (n - 1)) of
              (Some short_previous, Some short_latest) \<Rightarrow>
                if short_previous \<le> long_previous \<and> short_latest > long_latest then BUY
                else if short_previous \<ge> long_previous \<and> short_latest < long_latest then SELL
                else HOLD
            | _ \<Rightarrow> HOLD)
       | _ \<Rightarrow> HOLD)"
proof (cases "xs = [] \<or> int (length xs) < long_window se")
  case True
  then show ?thesis by (auto simp add: generate_signal_with_def Let_def)
next
  case False
  define n where "n = length xs"
  define df where "df = map (\<lambda>(c, s, l). \<lparr>close = c, sma_short = s, sma_long = l\<rparr>)
     (zip xs (zip shorts longs))"
  have len: "length df = n" using assms(3,4) by (simp add: df_def n_def)
  have nth: "df ! i = \<lparr>close = xs ! i, sma_short = shorts ! i, sma_long = longs ! i\<rparr>"
    if "i < n" for i
    using that assms(3,4) by (simp add: df_def n_def)
  have n1: "0 < n" using False by (simp add: n_def)
  have unfold: "generate_signal_with rolling se xs =
     (case iloc df (- 1) of
        Inl e \<Rightarrow> Inr HOLD
      | Inr latest \<Rightarrow>
        case iloc df (- 2) of
          Inl e \<Rightarrow> Inr HOLD
        | Inr previous \<Rightarrow>
           if sma_long latest = None \<or> sma_long previous = None then Inr HOLD
           else if nan_le (sma_short previous) (sma_long previous) \<and>
                   nan_lt (sma_long latest) (sma_short latest) then Inr BUY
           else if nan_le (sma_long previous) (sma_short previous) \<and>
                   nan_lt (sma_short latest) (sma_long latest) then Inr SELL
           else Inr HOLD)"
    unfolding generate_signal_with_def df_def Let_def assms(1) assms(2)
    using False by simp
  have last: "iloc df (- 1) = Inr (df ! (n - 1))"
    using iloc_last [of df] len n1 by auto
  show ?thesis
  proof (cases "n < 2")
    case True
    then show ?thesis using False
      by (simp add: unfold last iloc_previous len Let_def n_def [symmetric])
  next
    case two: False
    then have "n - 1 < n" "n - 2 < n" by auto
    then show ?thesis using False two
      by (auto simp add: unfold last iloc_previous len nth Let_def n_def [symmetric]
          split: option.splits)
  qed
qed

text \<open>
  Claim C6. \<^verbatim>\<open>generate_signal\<close> returns \<^verbatim>\<open>HOLD\<close> when the series is shorter than
  \<open>long_window\<close>. Let \<open>shorts\<close> and \<open>longs\<close> be the two columns of moving averages as the
  library computes them from the series, one entry per sample, \<open>None\<close> where the
  average is undefined. Then \<^verbatim>\<open>generate_signal\<close> returns \<^verbatim>\<open>HOLD\<close> when the series is shorter
  than \<open>long_window\<close>; otherwise \<^verbatim>\<open>HOLD\<close> when the series has no second-to-last sample or
  the long average is undefined at one of the last two samples; otherwise \<^verbatim>\<open>BUY\<close> iff
  the short average was \<open>\<le>\<close> the long one at the second-to-last sample and is \<open>>\<close> the long
  one at the last sample, \<^verbatim>\<open>SELL\<close> iff the short average was \<open>\<ge>\<close> the long one and is \<open><\<close>
  it at the last sample, and \<^verbatim>\<open>HOLD\<close> in all remaining cases, an undefined short average
  among them. The two crossover conditions exclude each other.
\<close>

theorem generate_signal_crossover:
  "(int (length xs) < long_window se \<longrightarrow> generate_signal_with rolling se xs = Inr HOLD) \<and>
   (rolling (short_window se) xs = Inr shorts \<longrightarrow>
    rolling (long_window se) xs = Inr longs \<longrightarrow>
    length shorts = length xs \<longrightarrow> length longs = length xs \<longrightarrow>
    generate_signal_with rolling se xs = Inr
      (let n = length xs in
       if int n < long_window se then HOLD
       else if n < 2 then HOLD
       else
         case (longs ! (n - 2), longs ! (n - 1)) of
           (Some long_previous, Some long_latest) \<Rightarrow>
             (case (shorts ! (n - 2), shorts ! (n - 1)) of
                (Some short_previous, Some short_latest) \<Rightarrow>
                  if short_previous \<le> long_previous \<and> short_latest > long_latest then BUY
                  else if short_previous \<ge> long_previous \<and> short_latest < long_latest
                  then SELL
                  else HOLD
              | _ \<Rightarrow> HOLD)
         | _ \<Rightarrow> HOLD))"
proof (intro conjI impI)
  assume "int (length xs) < long_window se"
  then show "generate_signal_with rolling se xs = Inr HOLD"
    by (simp add: generate_signal_with_def)
next
  assume "rolling (short_window se) xs = Inr shorts" "rolling (long_window se) xs = Inr longs"
    "length shorts = length xs" "length longs = length xs"
  then show "generate_signal_with rolling se xs = Inr
      (let n = length xs in
       if int n < long_window se then HOLD
       else if n < 2 then HOLD
       else
         case (longs ! (n - 2), longs ! (n - 1)) of
           (Some long_previous, Some long_latest) \<Rightarrow>
             (case (shorts ! (n - 2), shorts ! (n - 1)) of
                (Some short_previous, Some short_latest) \<Rightarrow>
                  if short_previous \<le> long_previous \<and> short_latest > long_latest then BUY
                  else if short_previous \<ge> long_previous \<and> short_latest < long_latest
                  then SELL
                  else HOLD
              | _ \<Rightarrow> HOLD)
         | _ \<Rightarrow> HOLD)"
    by (rule crossover_rule)
qed

lemma fast_columns:
  "rolling_mean (short_window fast_strategy) [2, 1, 2] = Inr [Some 2, Some 1, Some 2] \<and>
   rolling_mean (long_window fast_strategy) [2, 1, 2] = Inr [None, Some (3 / 2), Some (3 / 2)] \<and>
   rolling_mean (short_window fast_strategy) [1, 2, 1] = Inr [Some 1, Some 2, Some 1] \<and>
   rolling_mean (long_window fast_strategy) [1, 2, 1] = Inr [None, Some (3 / 2), Some (3 / 2)] \<and>
   rolling_mean (short_window fast_strategy) [1, 2] = Inr [Some 1, Some 2] \<and>
   rolling_mean (long_window fast_strategy) [1, 2] = Inr [None, Some (3 / 2)]"
  by (simp add: rolling_mean_def fast_strategy_def)

theorem generate_signal_crossover_witness:
  "rolling_mean (short_window fast_strategy) [2, 1, 2] = Inr [Some 2, Some 1, Some 2] \<and>
   rolling_mean (long_window fast_strategy) [2, 1, 2] = Inr [None, Some (3 / 2), Some (3 / 2)] \<and>
   generate_signal_with rolling_mean fast_strategy [2, 1, 2] = Inr BUY \<and>
   generate_signal_with rolling_mean fast_strategy [1, 2, 1] = Inr SELL \<and>
   generate_signal_with rolling_mean fast_strategy [1, 2] = Inr HOLD"
proof -
  note c = fast_columns
  have c1: "rolling_mean (short_window fast_strategy) [2, 1, 2] = Inr [Some 2, Some 1, Some 2]"
    and c2: "rolling_mean (long_window fast_strategy) [2, 1, 2] =
               Inr [None, Some (3 / 2), Some (3 / 2)]"
    and c3: "rolling_mean (short_window fast_strategy) [1, 2, 1] = Inr [Some 1, Some 2, Some 1]"
    and c4: "rolling_mean (long_window fast_strategy) [1, 2, 1] =
               Inr [None, Some (3 / 2), Some (3 / 2)]"
    and c5: "rolling_mean (short_window fast_strategy) [1, 2] = Inr [Some 1, Some 2]"
    and c6: "rolling_mean (long_window fast_strategy) [1, 2] = Inr [None, Some (3 / 2)]"
    using c by simp_all
  show ?thesis
    using generate_signal_crossover [where rolling = rolling_mean and se = fast_strategy
          and xs = "[2, 1, 2]", THEN conjunct2, rule_format, OF c1 c2]
      generate_signal_crossover [where rolling = rolling_mean and se = fast_strategy
          and xs = "[1, 2, 1]", THEN conjunct2, rule_format, OF c3 c4]
      generate_signal_crossover [where rolling = rolling_mean and se = fast_strategy
          and xs = "[1, 2]", THEN conjunct2, rule_format, OF c5 c6] c1 c2
    by (simp add: fast_strategy_def Let_def)
qed

text \<open>
  The exact rolling mean is the simple moving average in the words of the
  specification.
\<close>

lemma window_sum:
  assumes "i < length xs" and "w \<le> i + 1"
  shows "sum_list (take w (drop (i + 1 - w) xs)) = (\<Sum>j \<leftarrow> [i + 1 - w..<i + 1]. xs ! j)"
proof -
  have "map ((!) xs) [i + 1 - w..<i + 1] = take w (drop (i + 1 - w) xs)"
    using assms by (intro nth_equalityI) (auto simp del: upt_Suc)
  then show ?thesis by simp
qed

lemma rolling_mean_sma:
  assumes "0 \<le> w"
  shows "rolling_mean w xs = Inr (map (sma w xs) [0..<length xs])"
proof -
  have "sum_list (take (nat w) (drop (i + 1 - nat w) xs)) =
        (\<Sum>j \<leftarrow> [i + 1 - nat w..<i + 1]. xs ! j)"
    if "i < length xs" and "nat w \<le> i + 1" for i
    using that by (rule window_sum)
  then show ?thesis
    using assms by (simp add: rolling_mean_def sma_def del: upt_Suc)
qed

section \<open>Properties of the cycle\<close>

lemma foldl_value:
  "foldl (\<lambda>total_value (sym, pos).
            case [symbol \<mapsto> price] sym of
              Some pr \<Rightarrow> total_value + amount pos * pr
            | None \<Rightarrow> total_value) acc ps =
   acc + (\<Sum>(sym, pos) \<leftarrow> ps. if sym = symbol then amount pos * price else 0)"
  by (induction ps arbitrary: acc) (auto split: prod.splits)

lemma get_portfolio_value_single:
  "get_portfolio_value p [symbol \<mapsto> price] = cash_balance p + traded_value p symbol price"
  unfolding get_portfolio_value_def traded_value_def by (rule foldl_value)

lemma total_open_value_single:
  "total_open_value p [symbol \<mapsto> price] =
     traded_value p symbol price + other_entry_value p symbol"
proof -
  have "(\<Sum>(sym, pos) \<leftarrow> ps. amount pos *
           (case [symbol \<mapsto> price] sym of Some pr \<Rightarrow> pr | None \<Rightarrow> average_entry_price pos)) =
        (\<Sum>(sym, pos) \<leftarrow> ps. if sym = symbol then amount pos * price else 0) +
        (\<Sum>(sym, pos) \<leftarrow> ps. if sym = symbol then 0 else amount pos * average_entry_price pos)"
    for ps :: "(string \<times> position) list"
    by (induction ps) (auto split: prod.splits)
  then show ?thesis
    unfolding total_open_value_def get_all_positions_def traded_value_def other_entry_value_def .
qed

text \<open>
  Claim C10. In \<^verbatim>\<open>execute_cycle\<close> the price map holds the traded symbol only. The
  portfolio value passed to the guardian is the cash plus the traded symbol's
  entries at the current price: entries of other symbols add nothing to it. The
  open exposure passed to the guardian is the traded symbol's entries at the current
  price plus the entries of every other symbol at their average entry prices. The
  guardian is called with exactly these two values, and the cycle executes the
  decision it returns for them.
\<close>

theorem risk_inputs_value_other_symbols_differently:
  "get_portfolio_value p [symbol \<mapsto> price] = cash_balance p + traded_value p symbol price \<and>
   total_open_value p [symbol \<mapsto> price] =
     traded_value p symbol price + other_entry_value p symbol \<and>
   guardian_decision e symbol price hist =
     (case analyze (strategy e) (analyst e) (fst (scan (scout e) hist)) hist of
        Inl err \<Rightarrow> Inl err
      | Inr (analyst_proposal, an) \<Rightarrow>
          (case evaluate (risk e) (guardian e) analyst_proposal
                  (cash_balance (portfolio e) + traded_value (portfolio e) symbol price)
                  (traded_value (portfolio e) symbol price + other_entry_value (portfolio e) symbol)
                  price of
             Inl err \<Rightarrow> Inl err
           | Inr (d, gd) \<Rightarrow>
               Inr (d, e\<lparr>scout := snd (scan (scout e) hist), analyst := an, guardian := gd\<rparr>))) \<and>
   execute_cycle e now symbol price hist =
     (case analyze (strategy e) (analyst e) (fst (scan (scout e) hist)) hist of
        Inl err \<Rightarrow> Inl err
      | Inr (analyst_proposal, an) \<Rightarrow>
          (case evaluate (risk e) (guardian e) analyst_proposal
                  (cash_balance (portfolio e) + traded_value (portfolio e) symbol price)
                  (traded_value (portfolio e) symbol price + other_entry_value (portfolio e) symbol)
                  price of
             Inl err \<Rightarrow> Inl err
           | Inr (d, gd) \<Rightarrow>
               execution_logic
                 (e\<lparr>scout := snd (scan (scout e) hist), analyst := an, guardian := gd\<rparr>)
                 now symbol price d))"
  by (simp add: get_portfolio_value_single total_open_value_single guardian_decision_def
      execute_cycle_def Let_def split: prod.splits sum.splits)









lemma cooling_guardian_reached:
  "evaluate_calls RiskEngine three_losses [buy_call, buy_call, buy_call, buy_call] =
     Inr (replicate 4 cooldown_hold, cooling_guardian)"
  by (simp add: buy_call_def evaluate_def three_losses_state cooling_guardian_def
      cooldown_hold_def Let_def numeral_eq_Suc)










end
